theory Spec2Isabelle
  imports Main "HOL-Library.AList"
begin

section \<open>Strings, patterns and paths\<close>

text \<open>
  A JavaScript string is modelled as a \<^typ>\<open>string\<close>, one \<^typ>\<open>char\<close> per code unit
  (code units up to 255). \<open>dq\<close> is the double quote. \<open>is_space\<close> is the class \<open>\s\<close> of
  JavaScript regular expressions on these code units: tab, line feed, vertical tab, form feed,
  carriage return, space and the no-break space.
\<close>

definition dq :: char where
  "dq = CHR 0x22"

definition is_space :: "char \<Rightarrow> bool" where
  "is_space c = (c = CHR 0x09 \<or> c = CHR 0x0A \<or> c = CHR 0x0B \<or> c = CHR 0x0C
     \<or> c = CHR 0x0D \<or> c = CHR 0x20 \<or> c = CHR 0xA0)"

text \<open>
  The regular expressions of the source are concatenations of quantified character classes
  between \<open>^\<close> and \<open>$\<close>. A piece is a class with its quantifier (\<open>+\<close> or \<open>?\<close>, both greedy).
  \<open>match_pieces\<close> is the backtracking matcher: each piece first takes as many characters as it
  can and gives them back one at a time while the rest of the pattern fails. The result lists
  the text every piece matched.
\<close>

datatype quant = Plus | Opt

type_synonym piece = "(char \<Rightarrow> bool) \<times> quant"

fun backtrack :: "(string \<Rightarrow> string list option) \<Rightarrow> string \<Rightarrow> nat \<Rightarrow> nat \<Rightarrow> string list option" where
  "backtrack rest s lo n =
     (case rest (drop n s) of
        Some caps \<Rightarrow> Some (take n s # caps)
      | None \<Rightarrow> if n \<le> lo then None else backtrack rest s lo (n - 1))"

declare backtrack.simps [simp del]

primrec match_pieces :: "piece list \<Rightarrow> string \<Rightarrow> string list option" where
  "match_pieces [] = (\<lambda>s. if s = [] then Some [] else None)"
| "match_pieces (p # ps) = (\<lambda>s.
     let avail = length (takeWhile (fst p) s);
         hi = (case snd p of Plus \<Rightarrow> avail | Opt \<Rightarrow> min 1 avail);
         lo = (case snd p of Plus \<Rightarrow> 1 | Opt \<Rightarrow> 0)
     in if hi < lo then None else backtrack (match_pieces ps) s lo hi)"

text \<open>\<open>/^(\S+)\s+"?([^"]+)"?$/\<close> of \<open>findExistingAudioHook\<close>; its second group is the fourth piece.\<close>

definition command_pattern :: "piece list" where
  "command_pattern =
     [(\<lambda>c. \<not> is_space c, Plus), (is_space, Plus), (\<lambda>c. c = dq, Opt),
      (\<lambda>c. c \<noteq> dq, Plus), (\<lambda>c. c = dq, Opt)]"

definition commandParts :: "string \<Rightarrow> string option" where
  "commandParts cmd =
     (case match_pieces command_pattern cmd of
        Some [g1, ws, q1, g2, q2] \<Rightarrow> Some g2
      | _ \<Rightarrow> None)"

text \<open>
  \<open>hook.command.match(/"([^"]+)"/)?.[1] || hook.command.split(' ')[1]\<close> of the listing, the
  diagnostics and the tests: the first quoted, non-empty, quote-free substring, else the element
  at index 1 of the command split at single spaces. \<open>None\<close> is JavaScript's \<open>undefined\<close>.
\<close>

fun first_quoted :: "string \<Rightarrow> string option" where
  "first_quoted [] = None"
| "first_quoted (c # cs) =
     (if c = dq \<and> takeWhile (\<lambda>x. x \<noteq> dq) cs \<noteq> [] \<and> dropWhile (\<lambda>x. x \<noteq> dq) cs \<noteq> []
      then Some (takeWhile (\<lambda>x. x \<noteq> dq) cs)
      else first_quoted cs)"

fun split_space :: "string \<Rightarrow> string list" where
  "split_space [] = [[]]"
| "split_space (c # cs) =
     (if c = CHR '' '' then [] # split_space cs
      else (case split_space cs of [] \<Rightarrow> [[c]] | t # ts \<Rightarrow> (c # t) # ts))"

definition extractAudioFile :: "string \<Rightarrow> string option" where
  "extractAudioFile cmd =
     (case first_quoted cmd of
        Some p \<Rightarrow> Some p
      | None \<Rightarrow> (case split_space cmd of _ # t # _ \<Rightarrow> Some t | _ \<Rightarrow> None))"

text \<open>
  \<open>audioFile.replace(/^~/, process.env.HOME || '')\<close>. The replacement text of
  \<open>String.prototype.replace\<close> is a template: \<open>$$\<close> is a dollar sign, \<open>$&\<close> the matched
  text, \<open>$`\<close> the text before the match and \<open>$'\<close> the text after it; the pattern has no
  group, so every other \<open>$\<close> stays.
\<close>

fun substitution :: "string \<Rightarrow> string \<Rightarrow> string \<Rightarrow> string \<Rightarrow> string" where
  "substitution m b a (c # d # r) =
     (if c = CHR ''$'' \<and> d = CHR ''$'' then CHR ''$'' # substitution m b a r
      else if c = CHR ''$'' \<and> d = CHR ''&'' then m @ substitution m b a r
      else if c = CHR ''$'' \<and> d = CHR 0x60 then b @ substitution m b a r
      else if c = CHR ''$'' \<and> d = CHR 0x27 then a @ substitution m b a r
      else c # substitution m b a (d # r))"
| "substitution m b a r = r"

definition replace_tilde :: "string option \<Rightarrow> string \<Rightarrow> string" where
  "replace_tilde home p =
     (case p of
        c # r \<Rightarrow> if c = CHR ''~''
                 then substitution ''~'' [] r (case home of None \<Rightarrow> [] | Some h \<Rightarrow> h) @ r
                 else p
      | [] \<Rightarrow> [])"

text \<open>
  \<open>path.resolve\<close> belongs to the Node runtime, not to the repository; the operations take it
  from the environment. \<open>posix_resolve\<close> is its behaviour on POSIX for one argument, used for
  concrete environments: a relative path is put under the working directory, then the segments
  \<open>.\<close> and the empty ones are dropped and \<open>..\<close> removes the segment before it.
\<close>

fun split_slash :: "string \<Rightarrow> string list" where
  "split_slash [] = [[]]"
| "split_slash (c # cs) =
     (if c = CHR ''/'' then [] # split_slash cs
      else (case split_slash cs of [] \<Rightarrow> [[c]] | t # ts \<Rightarrow> (c # t) # ts))"

fun normalize_segments :: "string list \<Rightarrow> string list \<Rightarrow> string list" where
  "normalize_segments acc [] = rev acc"
| "normalize_segments acc (s # ss) =
     (if s = [] \<or> s = ''.'' then normalize_segments acc ss
      else if s = ''..'' then normalize_segments (case acc of [] \<Rightarrow> [] | _ # a \<Rightarrow> a) ss
      else normalize_segments (s # acc) ss)"

definition posix_resolve :: "string \<Rightarrow> string \<Rightarrow> string" where
  "posix_resolve cwd p =
     (let full = (case p of c # _ \<Rightarrow> if c = CHR ''/'' then p else cwd @ ''/'' @ p | [] \<Rightarrow> cwd);
          segs = normalize_segments [] (split_slash full)
      in if segs = [] then ''/'' else concat (map (\<lambda>s. CHR ''/'' # s) segs))"

text \<open>
  \<open>path.resolve\<close> on Windows, for the paths used here: a path with a drive letter is taken
  as it is, a path that starts with a separator goes to the drive of the working directory, any
  other path is put under the working directory; both separators are read, backslashes written.
\<close>

definition is_sep :: "char \<Rightarrow> bool" where
  "is_sep c = (c = CHR ''/'' \<or> c = CHR 0x5C)"

fun split_sep :: "string \<Rightarrow> string list" where
  "split_sep [] = [[]]"
| "split_sep (c # cs) =
     (if is_sep c then [] # split_sep cs
      else (case split_sep cs of [] \<Rightarrow> [[c]] | t # ts \<Rightarrow> (c # t) # ts))"

definition win32_resolve :: "string \<Rightarrow> string \<Rightarrow> string" where
  "win32_resolve cwd p =
     (let full = (case p of
                    c # d # x # _ \<Rightarrow> if d = CHR '':'' \<and> is_sep x then p
                                      else if is_sep c then take 2 cwd @ p
                                      else cwd @ [CHR 0x5C] @ p
                  | c # _ \<Rightarrow> if is_sep c then take 2 cwd @ p else cwd @ [CHR 0x5C] @ p
                  | [] \<Rightarrow> cwd);
          segs = normalize_segments [] (split_sep (drop 2 full))
      in take 2 full @ (if segs = [] then [CHR 0x5C] else concat (map (\<lambda>s. CHR 0x5C # s) segs)))"

section \<open>The settings document\<close>

text \<open>
  The types of \<open>src/types\<close>. An event name is a string: the type \<open>ClaudeCodeEvent\<close> is erased
  at run time and the operations check the name themselves. An absent optional field is
  \<open>None\<close>; \<open>wid\<close> is the field \<open>id\<close> of the watermark and \<open>ccsound\<close> the field \<open>_ccsound\<close> of a
  hook. The object \<open>hooks\<close> of the document is an association list in insertion order.
\<close>

record ccsoundWatermark =
  version :: string
  managed :: bool
  created :: string
  wid :: string
  migrated :: "bool option"

record Hook =
  hook_type :: string
  command :: string
  ccsound :: "ccsoundWatermark option"

record HookGroup =
  matchers :: "string list option"
  hooks :: "Hook list"

record SettingsConfig =
  settings_hooks :: "(string \<times> HookGroup list) list option"

record AudioValidation =
  exists :: bool
  path :: string

record AddSoundOptions =
  matcher :: "string option"

record TestOptions =
  dryRun :: bool
  events :: "string list option"

definition VALID_EVENTS :: "string list" where
  "VALID_EVENTS = [''Stop'', ''Notification'', ''PreToolUse'', ''PostToolUse'', ''SubagentStop'']"

section \<open>Environment, files and results\<close>

text \<open>
  What an operation reads from outside the document: the platform name, \<open>process.env.HOME\<close>,
  \<open>path.resolve\<close>, whether \<open>access\<close> finds a file, the version of \<open>package.json\<close>, the clock,
  the random UUID, and whether \<open>execSync\<close> of a command succeeds.
\<close>

record env =
  platform :: string
  HOME :: "string option"
  resolve :: "string \<Rightarrow> string"
  access_ok :: "string \<Rightarrow> bool"
  package_version :: string
  clock :: string
  uuid :: string
  exec_ok :: "string \<Rightarrow> bool"

text \<open>
  The settings file, its backup and its temporary sibling. The text of a file is represented by
  what \<open>JSON.parse\<close> makes of it: a document, or a syntax error. File operations themselves
  succeed; creating the directory is outside the state.
\<close>

datatype file_content = Parsed SettingsConfig | Unparseable

record fs =
  settings_file :: "file_content option"
  backup_file :: "file_content option"
  temp_file :: "file_content option"

text \<open>\<open>process.exit(code)\<close> after an error message is \<open>Exit code failure\<close>.\<close>

datatype failure =
  InvalidEvent string | AudioFileNotFound string | SettingsParseError | MissingEventOrAll

datatype 'a result = Exit nat failure | Return 'a

datatype add_report = AlreadyExists | Added | Replaced

datatype remove_report = NoManagedHooks | Removed nat

datatype clear_report = Cancelled | NoManagedHooksAtAll | RemovedTotal nat

datatype specific_report = NoHooksForEvent | Results nat nat

record test_report =
  successes :: nat
  failures :: nat
  tested_events :: nat

section \<open>config.ts\<close>

definition writeSettingsFile :: "SettingsConfig \<Rightarrow> fs \<Rightarrow> fs" where
  "writeSettingsFile config s =
     (let s1 = (if settings_file s \<noteq> None then s\<lparr>backup_file := settings_file s\<rparr> else s);
          s2 = s1\<lparr>temp_file := Some (Parsed config)\<rparr>;
          s3 = s2\<lparr>settings_file := temp_file s2, temp_file := None\<rparr>
      in if backup_file s3 \<noteq> None then s3\<lparr>backup_file := None\<rparr> else s3)"

definition readSettingsFile :: "fs \<Rightarrow> SettingsConfig result \<times> fs" where
  "readSettingsFile s =
     (case settings_file s of
        None \<Rightarrow>
          (let defaultSettings = \<lparr>settings_hooks = Some []\<rparr>
           in (Return defaultSettings, writeSettingsFile defaultSettings s))
      | Some Unparseable \<Rightarrow> (Exit 1 SettingsParseError, s)
      | Some (Parsed config) \<Rightarrow> (Return config, s))"

definition ensureHooksStructure :: "SettingsConfig \<Rightarrow> SettingsConfig" where
  "ensureHooksStructure config =
     (if settings_hooks config = None then config\<lparr>settings_hooks := Some []\<rparr> else config)"

text \<open>\<open>getEventHooks\<close> also returns the document, which \<open>ensureHooksStructure\<close> may have changed.\<close>

definition getEventHooks :: "SettingsConfig \<Rightarrow> string \<Rightarrow> HookGroup list \<times> SettingsConfig" where
  "getEventHooks config event =
     (let config1 = ensureHooksStructure config
      in case settings_hooks config1 of
           None \<Rightarrow> ([], config1)
         | Some hs \<Rightarrow> (case map_of hs event of None \<Rightarrow> ([], config1) | Some eventHooks \<Rightarrow> (eventHooks, config1)))"

definition setEventHooks :: "SettingsConfig \<Rightarrow> string \<Rightarrow> HookGroup list \<Rightarrow> SettingsConfig" where
  "setEventHooks config event hs =
     (let config1 = ensureHooksStructure config
      in case settings_hooks config1 of
           None \<Rightarrow> config1
         | Some m \<Rightarrow> config1\<lparr>settings_hooks := Some (AList.update event hs m)\<rparr>)"

section \<open>utils.ts\<close>

text \<open>The message of the error that \<open>validateAudioFile\<close> caught is not part of the model.\<close>

definition getAudioPlayer :: "string \<Rightarrow> string" where
  "getAudioPlayer currentPlatform =
     (if currentPlatform = ''darwin'' then ''afplay''
      else if currentPlatform = ''linux'' then ''aplay''
      else if currentPlatform = ''win32''
        then ''powershell -c '' @ [dq] @ ''(New-Object Media.SoundPlayer '' @ [CHR 0x27] @ ''%s''
               @ [CHR 0x27] @ '').PlaySync();'' @ [dq]
      else ''afplay'')"

definition validateAudioFile :: "env \<Rightarrow> string \<Rightarrow> AudioValidation" where
  "validateAudioFile e audioFile =
     (let expandedPath = resolve e (replace_tilde (HOME e) audioFile)
      in if access_ok e expandedPath
         then \<lparr>exists = True, path = expandedPath\<rparr>
         else \<lparr>exists = False, path = audioFile\<rparr>)"

section \<open>hooks.ts\<close>

definition createWatermark :: "env \<Rightarrow> ccsoundWatermark" where
  "createWatermark e =
     \<lparr>version = package_version e, managed = True, created = clock e,
      wid = ''ccsound_'' @ take 8 (uuid e), migrated = None\<rparr>"

definition createAudioHook :: "env \<Rightarrow> string \<Rightarrow> string \<Rightarrow> AddSoundOptions \<Rightarrow> HookGroup" where
  "createAudioHook e event audioFile options =
     (let player = getAudioPlayer (platform e);
          expandedPath = replace_tilde (HOME e) audioFile;
          hook = \<lparr>hook_type = ''command'',
                  command = player @ '' '' @ [dq] @ expandedPath @ [dq],
                  ccsound = Some (createWatermark e)\<rparr>
      in case matcher options of
           Some m \<Rightarrow>
             if m \<noteq> [] \<and> (event = ''PreToolUse'' \<or> event = ''PostToolUse'')
             then \<lparr>matchers = Some [m], hooks = [hook]\<rparr>
             else \<lparr>matchers = None, hooks = [hook]\<rparr>
         | None \<Rightarrow> \<lparr>matchers = None, hooks = [hook]\<rparr>)"

definition isccsoundManaged :: "HookGroup \<Rightarrow> bool" where
  "isccsoundManaged hookGroup =
     list_ex (\<lambda>h. case ccsound h of None \<Rightarrow> False | Some w \<Rightarrow> managed w) (hooks hookGroup)"

text \<open>The inner and the outer loop of \<open>findExistingAudioHook\<close>, each with its early return.\<close>

fun findExistingAudioHook_hooks :: "env \<Rightarrow> string \<Rightarrow> Hook list \<Rightarrow> bool" where
  "findExistingAudioHook_hooks e expandedPath [] = False"
| "findExistingAudioHook_hooks e expandedPath (hook # rest) =
     (if hook_type hook = ''command'' \<and> command hook \<noteq> []
      then (case commandParts (command hook) of
              Some g2 \<Rightarrow>
                if resolve e (replace_tilde (HOME e) g2) = expandedPath then True
                else findExistingAudioHook_hooks e expandedPath rest
            | None \<Rightarrow> findExistingAudioHook_hooks e expandedPath rest)
      else findExistingAudioHook_hooks e expandedPath rest)"

fun findExistingAudioHook_groups :: "env \<Rightarrow> string \<Rightarrow> HookGroup list \<Rightarrow> HookGroup option" where
  "findExistingAudioHook_groups e expandedPath [] = None"
| "findExistingAudioHook_groups e expandedPath (hookGroup # rest) =
     (if \<not> isccsoundManaged hookGroup then findExistingAudioHook_groups e expandedPath rest
      else if findExistingAudioHook_hooks e expandedPath (hooks hookGroup) then Some hookGroup
      else findExistingAudioHook_groups e expandedPath rest)"

definition findExistingAudioHook :: "env \<Rightarrow> HookGroup list \<Rightarrow> string \<Rightarrow> HookGroup option" where
  "findExistingAudioHook e eventHooks audioFile =
     findExistingAudioHook_groups e (resolve e (replace_tilde (HOME e) audioFile)) eventHooks"

definition findExistingccsoundHooks :: "HookGroup list \<Rightarrow> HookGroup list" where
  "findExistingccsoundHooks eventHooks = filter isccsoundManaged eventHooks"

definition addSoundHook ::
  "env \<Rightarrow> string \<Rightarrow> string \<Rightarrow> AddSoundOptions \<Rightarrow> fs \<Rightarrow> add_report result \<times> fs" where
  "addSoundHook e event audioFile options s =
     (if event \<notin> set VALID_EVENTS then (Exit 1 (InvalidEvent event), s)
      else if \<not> exists (validateAudioFile e audioFile) then (Exit 1 (AudioFileNotFound audioFile), s)
      else
        (case readSettingsFile s of
           (Exit code f, s1) \<Rightarrow> (Exit code f, s1)
         | (Return config, s1) \<Rightarrow>
             (case getEventHooks config event of
                (eventHooks, config1) \<Rightarrow>
                  (case findExistingAudioHook e eventHooks audioFile of
                     Some exactMatch \<Rightarrow> (Return AlreadyExists, s1)
                   | None \<Rightarrow>
                       (let existingccsoundHooks = findExistingccsoundHooks eventHooks;
                            nonccsoundHooks = filter (\<lambda>g. \<not> isccsoundManaged g) eventHooks;
                            newHook = createAudioHook e event audioFile options;
                            updatedHooks = nonccsoundHooks @ [newHook];
                            s2 = writeSettingsFile (setEventHooks config1 event updatedHooks) s1
                        in if length existingccsoundHooks > 0 then (Return Replaced, s2)
                           else (Return Added, s2))))))"

definition removeHooks :: "string \<Rightarrow> fs \<Rightarrow> remove_report result \<times> fs" where
  "removeHooks event s =
     (if event \<notin> set VALID_EVENTS then (Exit 1 (InvalidEvent event), s)
      else
        (case readSettingsFile s of
           (Exit code f, s1) \<Rightarrow> (Exit code f, s1)
         | (Return config, s1) \<Rightarrow>
             (case getEventHooks config event of
                (eventHooks, config1) \<Rightarrow>
                  (let filteredHooks = filter (\<lambda>g. \<not> isccsoundManaged g) eventHooks;
                       removedCount = length eventHooks - length filteredHooks
                   in if removedCount = 0 then (Return NoManagedHooks, s1)
                      else (Return (Removed removedCount),
                            writeSettingsFile (setEventHooks config1 event filteredHooks) s1)))))"

text \<open>The loop of \<open>clearAllHooks\<close> over the events, on the document and the running total.\<close>

fun clearAllHooks_loop :: "string list \<Rightarrow> SettingsConfig \<Rightarrow> nat \<Rightarrow> SettingsConfig \<times> nat" where
  "clearAllHooks_loop [] config totalRemoved = (config, totalRemoved)"
| "clearAllHooks_loop (event # rest) config totalRemoved =
     (case getEventHooks config event of
        (eventHooks, config1) \<Rightarrow>
          (let filteredHooks = filter (\<lambda>g. \<not> isccsoundManaged g) eventHooks;
               removedCount = length eventHooks - length filteredHooks
           in if removedCount > 0
              then clearAllHooks_loop rest (setEventHooks config1 event filteredHooks)
                     (totalRemoved + removedCount)
              else clearAllHooks_loop rest config1 totalRemoved))"

text \<open>\<open>confirm\<close> is the answer to the prompt.\<close>

definition clearAllHooks :: "bool \<Rightarrow> fs \<Rightarrow> clear_report result \<times> fs" where
  "clearAllHooks confirm s =
     (if \<not> confirm then (Return Cancelled, s)
      else
        (case readSettingsFile s of
           (Exit code f, s1) \<Rightarrow> (Exit code f, s1)
         | (Return config, s1) \<Rightarrow>
             (case clearAllHooks_loop VALID_EVENTS config 0 of
                (config1, totalRemoved) \<Rightarrow>
                  if totalRemoved = 0 then (Return NoManagedHooksAtAll, s1)
                  else (Return (RemovedTotal totalRemoved), writeSettingsFile config1 s1))))"

section \<open>test.ts\<close>

text \<open>
  The body of the loop over the hooks of a group, on the success and failure counters. The
  console output, and with it the options that only change it, is left out.
\<close>

fun test_hooks :: "env \<Rightarrow> TestOptions \<Rightarrow> Hook list \<Rightarrow> nat \<times> nat \<Rightarrow> nat \<times> nat" where
  "test_hooks e options [] (ok, bad) = (ok, bad)"
| "test_hooks e options (hook # rest) (ok, bad) =
     (if hook_type hook = ''command'' \<and> command hook \<noteq> []
      then (case extractAudioFile (command hook) of
              None \<Rightarrow> test_hooks e options rest (ok, bad)
            | Some audioFile \<Rightarrow>
                if audioFile = [] then test_hooks e options rest (ok, bad)
                else if \<not> exists (validateAudioFile e audioFile)
                  then test_hooks e options rest (ok, bad + 1)
                else if \<not> dryRun options
                  then (if exec_ok e (command hook) then test_hooks e options rest (ok + 1, bad)
                        else test_hooks e options rest (ok, bad + 1))
                else test_hooks e options rest (ok + 1, bad))
      else test_hooks e options rest (ok, bad))"

fun test_groups :: "env \<Rightarrow> TestOptions \<Rightarrow> HookGroup list \<Rightarrow> nat \<times> nat \<Rightarrow> nat \<times> nat" where
  "test_groups e options [] counts = counts"
| "test_groups e options (hookGroup # rest) counts =
     test_groups e options rest (test_hooks e options (hooks hookGroup) counts)"

definition testSpecificEvent ::
  "env \<Rightarrow> string \<Rightarrow> TestOptions \<Rightarrow> fs \<Rightarrow> specific_report result \<times> fs" where
  "testSpecificEvent e event options s =
     (if event \<notin> set VALID_EVENTS then (Exit 1 (InvalidEvent event), s)
      else
        (case readSettingsFile s of
           (Exit code f, s1) \<Rightarrow> (Exit code f, s1)
         | (Return config, s1) \<Rightarrow>
             (let ccsoundHooks = filter isccsoundManaged (fst (getEventHooks config event))
              in if length ccsoundHooks = 0
                 then (Return NoHooksForEvent, s1)
                 else (case test_groups e options ccsoundHooks (0, 0) of
                         (ok, bad) \<Rightarrow> (Return (Results ok bad), s1)))))"

fun testAllEvents_loop ::
  "env \<Rightarrow> TestOptions \<Rightarrow> string list \<Rightarrow> SettingsConfig \<Rightarrow> test_report \<Rightarrow> test_report" where
  "testAllEvents_loop e options [] config r = r"
| "testAllEvents_loop e options (event # rest) config r =
     (case getEventHooks config event of
        (eventHooks, config1) \<Rightarrow>
          (let ccsoundHooks = filter isccsoundManaged eventHooks
           in if length ccsoundHooks = 0 then testAllEvents_loop e options rest config1 r
              else (case test_groups e options ccsoundHooks (successes r, failures r) of
                      (ok, bad) \<Rightarrow>
                        testAllEvents_loop e options rest config1
                          \<lparr>successes = ok, failures = bad, tested_events = tested_events r + 1\<rparr>)))"

definition testAllEvents :: "env \<Rightarrow> TestOptions \<Rightarrow> fs \<Rightarrow> test_report result \<times> fs" where
  "testAllEvents e options s =
     (case readSettingsFile s of
        (Exit code f, s1) \<Rightarrow> (Exit code f, s1)
      | (Return config, s1) \<Rightarrow>
          (let eventsToTest = (case events options of None \<Rightarrow> VALID_EVENTS | Some es \<Rightarrow> es)
           in (Return (testAllEvents_loop e options eventsToTest config
                         \<lparr>successes = 0, failures = 0, tested_events = 0\<rparr>), s1)))"

section \<open>cli.ts\<close>

text \<open>
  The action of the command \<open>test [event]\<close>: with \<open>--all\<close> it tests all events, whether an
  event was given or not; else it tests the event; with neither it exits with code 1. The options
  that the command line parser passes on have no event list.
\<close>

datatype test_command_report = AllEvents test_report | OneEvent specific_report

definition test_command ::
  "env \<Rightarrow> string option \<Rightarrow> bool \<Rightarrow> bool \<Rightarrow> fs \<Rightarrow> test_command_report result \<times> fs" where
  "test_command e event all_flag dry s =
     (let options = \<lparr>dryRun = dry, events = None\<rparr>
      in if all_flag
         then (case testAllEvents e options s of
                 (Exit code f, s1) \<Rightarrow> (Exit code f, s1)
               | (Return r, s1) \<Rightarrow> (Return (AllEvents r), s1))
         else (case event of
                 Some ev \<Rightarrow>
                   if ev \<noteq> []
                   then (case testSpecificEvent e ev options s of
                           (Exit code f, s1) \<Rightarrow> (Exit code f, s1)
                         | (Return r, s1) \<Rightarrow> (Return (OneEvent r), s1))
                   else (Exit 1 MissingEventOrAll, s)
               | None \<Rightarrow> (Exit 1 MissingEventOrAll, s)))"

section \<open>What is on disk\<close>

text \<open>The hook groups of an event in the settings file, as the next run would read them.\<close>

definition disk_hooks :: "fs \<Rightarrow> string \<Rightarrow> HookGroup list" where
  "disk_hooks s event =
     (case settings_file s of
        Some (Parsed config) \<Rightarrow> fst (getEventHooks config event)
      | _ \<Rightarrow> [])"

definition unmanaged :: "HookGroup list \<Rightarrow> HookGroup list" where
  "unmanaged gs = filter (\<lambda>g. \<not> isccsoundManaged g) gs"

text \<open>The number that \<open>removeHooks\<close> prints.\<close>

fun reported_count :: "remove_report \<Rightarrow> nat" where
  "reported_count NoManagedHooks = 0"
| "reported_count (Removed n) = n"

section \<open>Concrete environments and documents\<close>

definition linux_env :: env where
  "linux_env =
     \<lparr>platform = ''linux'', HOME = Some ''/home/u'', resolve = posix_resolve ''/work'',
      access_ok = (\<lambda>p. p = ''/home/u/a.wav'' \<or> p = ''/tmp/a.wav''
                       \<or> p = ''/tmp/a'' @ [dq] @ ''b.wav''),
      package_version = ''1.0.0'', clock = ''2025-01-01T00:00:00.000Z'',
      uuid = ''123e4567-e89b-42d3-a456-426614174000'', exec_ok = (\<lambda>c. True)\<rparr>"

definition foreign_group :: HookGroup where
  "foreign_group =
     \<lparr>matchers = None,
      hooks = [\<lparr>hook_type = ''command'', command = ''echo done'', ccsound = None\<rparr>]\<rparr>"

definition managed_group :: "string \<Rightarrow> HookGroup" where
  "managed_group cmd =
     \<lparr>matchers = None,
      hooks = [\<lparr>hook_type = ''command'', command = cmd,
                ccsound = Some \<lparr>version = ''1.0.0'', managed = True,
                                created = ''2024-06-01T12:00:00.000Z'', wid = ''ccsound_0a1b2c3d'',
                                migrated = None\<rparr>\<rparr>]\<rparr>"

definition quoted :: "string \<Rightarrow> string" where
  "quoted p = [dq] @ p @ [dq]"

definition stop_document :: "HookGroup list \<Rightarrow> fs" where
  "stop_document gs =
     \<lparr>settings_file = Some (Parsed \<lparr>settings_hooks = Some [(''Stop'', gs)]\<rparr>),
      backup_file = None, temp_file = None\<rparr>"

definition no_options :: AddSoundOptions where
  "no_options = \<lparr>matcher = None\<rparr>"

definition linux_env_later :: env where
  "linux_env_later =
     linux_env\<lparr>clock := ''2025-01-02T08:30:00.000Z'', uuid := ''9f8e7d6c-5b4a-4392-8170-0123456789ab''\<rparr>"

definition win32_env :: env where
  "win32_env =
     \<lparr>platform = ''win32'', HOME = Some ''C:/Users/u'',
      resolve = win32_resolve (''C:'' @ [CHR 0x5C] @ ''work''),
      access_ok = (\<lambda>p. p = ''C:'' @ [CHR 0x5C] @ ''Users'' @ [CHR 0x5C] @ ''u'' @ [CHR 0x5C] @ ''a.wav''),
      package_version = ''1.0.0'', clock = ''2025-01-01T00:00:00.000Z'',
      uuid = ''123e4567-e89b-42d3-a456-426614174000'', exec_ok = (\<lambda>c. True)\<rparr>"

definition win32_env_later :: env where
  "win32_env_later =
     win32_env\<lparr>clock := ''2025-01-02T08:30:00.000Z'', uuid := ''9f8e7d6c-5b4a-4392-8170-0123456789ab''\<rparr>"

definition empty_document :: fs where
  "empty_document =
     \<lparr>settings_file = Some (Parsed \<lparr>settings_hooks = Some []\<rparr>),
      backup_file = None, temp_file = None\<rparr>"

definition two_managed_one_foreign :: "HookGroup list" where
  "two_managed_one_foreign =
     [managed_group (''aplay '' @ quoted ''/old.wav''), foreign_group,
      managed_group (''aplay '' @ quoted ''/older.wav'')]"

definition absent_settings :: fs where
  "absent_settings = \<lparr>settings_file = None, backup_file = None, temp_file = None\<rparr>"

definition malformed_settings :: fs where
  "malformed_settings =
     \<lparr>settings_file = Some Unparseable, backup_file = None, temp_file = None\<rparr>"

definition two_sounds :: "HookGroup list" where
  "two_sounds =
     [managed_group (''aplay '' @ quoted ''/tmp/a.wav''),
      managed_group (''aplay '' @ quoted ''/home/u/a.wav'')]"

definition edited_group :: HookGroup where
  "edited_group = managed_group (''aplay '' @ quoted ''/tmp/a.wav'' @ '' -q'')"

section \<open>The lookup as the specification words it\<close>

text \<open>
  The specification's \<open>findByPath\<close>, in its words: for each managed group, for each command
  entry, extract the audio path from the command text, resolve the extracted path and the query
  to absolute form after expanding a leading home-directory marker, and return the first group
  with a resolved path equal to the query's. The extraction rule is the parameter \<open>extract\<close>.
\<close>

definition findByPath_spec ::
  "(string \<Rightarrow> string option) \<Rightarrow> env \<Rightarrow> HookGroup list \<Rightarrow> string \<Rightarrow> HookGroup option" where
  "findByPath_spec extract e groups audioPath =
     List.find
       (\<lambda>g. isccsoundManaged g \<and>
            list_ex (\<lambda>h. hook_type h = ''command'' \<and>
                         (case extract (command h) of
                            None \<Rightarrow> False
                          | Some p \<Rightarrow> resolve e (replace_tilde (HOME e) p)
                                       = resolve e (replace_tilde (HOME e) audioPath)))
                    (hooks g))
       groups"

section \<open>Reading, writing and the view of the disk\<close>

lemma settings_file_writeSettingsFile:
  "settings_file (writeSettingsFile config s) = Some (Parsed config)"
  by (simp add: writeSettingsFile_def Let_def)

lemma getEventHooks_setEventHooks:
  "fst (getEventHooks (setEventHooks config event hs) ev) =
     (if ev = event then hs else fst (getEventHooks config ev))"
  by (simp add: getEventHooks_def setEventHooks_def ensureHooksStructure_def Let_def
      update_conv' split: option.splits)

lemma getEventHooks_snd:
  "fst (getEventHooks (snd (getEventHooks config event)) ev) = fst (getEventHooks config ev)"
  by (simp add: getEventHooks_def ensureHooksStructure_def Let_def split: option.splits)

lemma setEventHooks_snd:
  "setEventHooks (snd (getEventHooks config event)) ev hs = setEventHooks config ev hs"
  by (simp add: getEventHooks_def setEventHooks_def ensureHooksStructure_def Let_def split: option.splits)

lemma isccsoundManaged_createAudioHook:
  "isccsoundManaged (createAudioHook e event audioFile options)"
  by (simp add: isccsoundManaged_def createAudioHook_def createWatermark_def Let_def
      split: option.splits)

lemma readSettingsFile_cases:
  "readSettingsFile s = (Return config, s1) \<Longrightarrow>
     (settings_file s = Some (Parsed config) \<and> s1 = s) \<or>
     (settings_file s = None \<and> config = \<lparr>settings_hooks = Some []\<rparr> \<and> s1 = writeSettingsFile config s)"
  by (auto simp: readSettingsFile_def Let_def split: option.splits file_content.splits)

lemma disk_hooks_read:
  "readSettingsFile s = (Return config, s1) \<Longrightarrow> disk_hooks s1 ev = fst (getEventHooks config ev)"
  by (auto dest!: readSettingsFile_cases simp: disk_hooks_def settings_file_writeSettingsFile)

lemma disk_hooks_read_before:
  "readSettingsFile s = (Return config, s1) \<Longrightarrow> disk_hooks s ev = fst (getEventHooks config ev)"
  by (auto dest!: readSettingsFile_cases simp: disk_hooks_def getEventHooks_def ensureHooksStructure_def)

lemma addSoundHook_success:
  assumes "event \<in> set VALID_EVENTS"
    and "exists (validateAudioFile e audioFile)"
    and "readSettingsFile s = (Return config, s1)"
    and "findExistingAudioHook e (fst (getEventHooks config event)) audioFile = None"
  shows "addSoundHook e event audioFile options s =
           (Return (if filter isccsoundManaged (fst (getEventHooks config event)) \<noteq> [] then Replaced else Added),
            writeSettingsFile
              (setEventHooks config event
                 (unmanaged (fst (getEventHooks config event)) @ [createAudioHook e event audioFile options])) s1)"
  using assms
  by (cases "getEventHooks config event")
     (simp add: addSoundHook_def Let_def findExistingccsoundHooks_def unmanaged_def setEventHooks_snd[of config event event, symmetric])


lemma disk_hooks_writeSettingsFile:
  "disk_hooks (writeSettingsFile config s) ev = fst (getEventHooks config ev)"
  by (simp add: disk_hooks_def settings_file_writeSettingsFile)

lemma readSettingsFile_parseable:
  "settings_file s \<noteq> Some Unparseable \<Longrightarrow>
     \<exists>config s1. readSettingsFile s = (Return config, s1)"
  by (auto simp: readSettingsFile_def Let_def split: option.splits file_content.splits)

lemma addSoundHook_written:
  assumes "event \<in> set VALID_EVENTS"
    and "exists (validateAudioFile e audioFile)"
    and "settings_file s \<noteq> Some Unparseable"
    and "findExistingAudioHook e (disk_hooks s event) audioFile = None"
  shows "fst (addSoundHook e event audioFile options s) =
           Return (if filter isccsoundManaged (disk_hooks s event) \<noteq> [] then Replaced else Added)"
    and "disk_hooks (snd (addSoundHook e event audioFile options s)) ev =
           (if ev = event
            then unmanaged (disk_hooks s event) @ [createAudioHook e event audioFile options]
            else disk_hooks s ev)"
proof -
  from assms(3) obtain config s1 where r: "readSettingsFile s = (Return config, s1)"
    using readSettingsFile_parseable by blast
  have d: "\<And>ev. disk_hooks s ev = fst (getEventHooks config ev)"
    using r by (rule disk_hooks_read_before)
  have f: "findExistingAudioHook e (fst (getEventHooks config event)) audioFile = None"
    using assms(4) by (simp add: d)
  note a = addSoundHook_success [OF assms(1,2) r f, of options]
  show "fst (addSoundHook e event audioFile options s) =
           Return (if filter isccsoundManaged (disk_hooks s event) \<noteq> [] then Replaced else Added)"
    by (simp add: a d)
  show "disk_hooks (snd (addSoundHook e event audioFile options s)) ev =
           (if ev = event
            then unmanaged (disk_hooks s event) @ [createAudioHook e event audioFile options]
            else disk_hooks s ev)"
    by (simp add: a d disk_hooks_writeSettingsFile getEventHooks_setEventHooks)
qed

lemma unmanaged_append_managed:
  "isccsoundManaged g \<Longrightarrow> unmanaged (unmanaged gs @ [g]) = unmanaged gs"
  by (simp add: unmanaged_def)

lemma addSoundHook_keeps_unmanaged:
  "unmanaged (disk_hooks (snd (addSoundHook e event audioFile options s)) ev) =
     unmanaged (disk_hooks s ev)"
proof (cases "event \<in> set VALID_EVENTS \<and> exists (validateAudioFile e audioFile)")
  case False
  then show ?thesis by (auto simp: addSoundHook_def)
next
  case valid: True
  show ?thesis
  proof (cases "settings_file s = Some Unparseable")
    case True
    then show ?thesis by (simp add: addSoundHook_def readSettingsFile_def)
  next
    case False
    then obtain config s1 where r: "readSettingsFile s = (Return config, s1)"
      using readSettingsFile_parseable by blast
    show ?thesis
    proof (cases "findExistingAudioHook e (disk_hooks s event) audioFile")
      case None
      with valid False show ?thesis
        by (simp add: addSoundHook_written unmanaged_append_managed
            isccsoundManaged_createAudioHook)
    next
      case (Some g)
      then have "snd (addSoundHook e event audioFile options s) = s1"
        using valid r
        by (cases "getEventHooks config event")
           (simp add: addSoundHook_def disk_hooks_read_before [OF r])
      then show ?thesis
        by (simp add: disk_hooks_read [OF r] disk_hooks_read_before [OF r])
    qed
  qed
qed

lemma length_removed:
  "length gs - length (filter (\<lambda>g. \<not> isccsoundManaged g) gs) = length (filter isccsoundManaged gs)"
  using sum_length_filter_compl [of isccsoundManaged gs] by simp

lemma unmanaged_all:
  "filter isccsoundManaged gs = [] \<Longrightarrow> unmanaged gs = gs"
  by (simp add: unmanaged_def filter_empty_conv)

lemma unmanaged_idem:
  "unmanaged (unmanaged gs) = unmanaged gs"
  by (simp add: unmanaged_def)

lemma removeHooks_unfold:
  assumes "event \<in> set VALID_EVENTS" and "readSettingsFile s = (Return config, s1)"
  shows "removeHooks event s =
           (if filter isccsoundManaged (fst (getEventHooks config event)) = []
            then (Return NoManagedHooks, s1)
            else (Return (Removed (length (filter isccsoundManaged (fst (getEventHooks config event))))),
                  writeSettingsFile
                    (setEventHooks config event (unmanaged (fst (getEventHooks config event)))) s1))"
proof -
  obtain eventHooks config1 where g: "getEventHooks config event = (eventHooks, config1)"
    by (cases "getEventHooks config event")
  have s: "setEventHooks config1 event = setEventHooks config event"
    using setEventHooks_snd [of config event event] g by (simp add: fun_eq_iff)
  have "removeHooks event s =
          (if length eventHooks - length (filter (\<lambda>g. \<not> isccsoundManaged g) eventHooks) = 0
           then (Return NoManagedHooks, s1)
           else (Return (Removed (length eventHooks
                                   - length (filter (\<lambda>g. \<not> isccsoundManaged g) eventHooks))),
                 writeSettingsFile
                   (setEventHooks config1 event (filter (\<lambda>g. \<not> isccsoundManaged g) eventHooks)) s1))"
    using assms g by (simp add: removeHooks_def Let_def del: diff_is_0_eq)
  then show ?thesis
    unfolding length_removed s using g by (simp add: unmanaged_def)
qed

lemma removeHooks_result:
  assumes "event \<in> set VALID_EVENTS" and "settings_file s \<noteq> Some Unparseable"
  shows "disk_hooks (snd (removeHooks event s)) ev =
           (if ev = event then unmanaged (disk_hooks s event) else disk_hooks s ev)"
    and "\<exists>r. fst (removeHooks event s) = Return r \<and>
             reported_count r = length (filter isccsoundManaged (disk_hooks s event))"
proof -
  from assms(2) obtain config s1 where r: "readSettingsFile s = (Return config, s1)"
    using readSettingsFile_parseable by blast
  note u = removeHooks_unfold [OF assms(1) r]
  have d: "\<And>ev. disk_hooks s ev = fst (getEventHooks config ev)"
    using r by (rule disk_hooks_read_before)
  have d1: "\<And>ev. disk_hooks s1 ev = fst (getEventHooks config ev)"
    using r by (rule disk_hooks_read)
  show "disk_hooks (snd (removeHooks event s)) ev =
           (if ev = event then unmanaged (disk_hooks s event) else disk_hooks s ev)"
    by (simp add: u d d1 disk_hooks_writeSettingsFile getEventHooks_setEventHooks unmanaged_all)
  show "\<exists>r. fst (removeHooks event s) = Return r \<and>
             reported_count r = length (filter isccsoundManaged (disk_hooks s event))"
    by (simp add: u d)
qed

lemma removeHooks_keeps_unmanaged:
  "unmanaged (disk_hooks (snd (removeHooks event s)) ev) = unmanaged (disk_hooks s ev)"
proof (cases "event \<in> set VALID_EVENTS \<and> settings_file s \<noteq> Some Unparseable")
  case True
  then show ?thesis by (simp add: removeHooks_result(1) unmanaged_def)
next
  case False
  then show ?thesis by (auto simp: removeHooks_def readSettingsFile_def)
qed

lemma clearAllHooks_loop_step:
  "clearAllHooks_loop (event # rest) config n =
     (if filter isccsoundManaged (fst (getEventHooks config event)) = []
      then clearAllHooks_loop rest (snd (getEventHooks config event)) n
      else clearAllHooks_loop rest
             (setEventHooks config event (unmanaged (fst (getEventHooks config event))))
             (n + length (filter isccsoundManaged (fst (getEventHooks config event)))))"
proof -
  obtain eventHooks config1 where g: "getEventHooks config event = (eventHooks, config1)"
    by (cases "getEventHooks config event")
  have s: "setEventHooks config1 event = setEventHooks config event"
    using setEventHooks_snd [of config event event] g by (simp add: fun_eq_iff)
  have "clearAllHooks_loop (event # rest) config n =
          (if length eventHooks - length (filter (\<lambda>g. \<not> isccsoundManaged g) eventHooks) > 0
           then clearAllHooks_loop rest
                  (setEventHooks config1 event (filter (\<lambda>g. \<not> isccsoundManaged g) eventHooks))
                  (n + (length eventHooks - length (filter (\<lambda>g. \<not> isccsoundManaged g) eventHooks)))
           else clearAllHooks_loop rest config1 n)"
    using g by (simp add: Let_def del: zero_less_diff)
  then show ?thesis
    unfolding length_removed s using g by (simp add: unmanaged_def)
qed

lemma clearAllHooks_loop_hooks:
  "fst (getEventHooks (fst (clearAllHooks_loop evs config n)) ev) =
     (if ev \<in> set evs then unmanaged (fst (getEventHooks config ev))
      else fst (getEventHooks config ev))"
proof (induction evs arbitrary: config n)
  case Nil
  then show ?case by simp
next
  case (Cons event rest)
  show ?case
  proof (cases "ev = event")
    case True
    then have e: "event = ev" by simp
    show ?thesis
      unfolding clearAllHooks_loop_step e
      by (simp add: Cons.IH getEventHooks_snd getEventHooks_setEventHooks unmanaged_all
          unmanaged_idem)
  next
    case False
    then show ?thesis
      unfolding clearAllHooks_loop_step
      by (simp add: Cons.IH getEventHooks_snd getEventHooks_setEventHooks)
  qed
qed

lemma clearAllHooks_unfold:
  assumes "readSettingsFile s = (Return config, s1)"
  shows "snd (clearAllHooks True s) = s1 \<or>
         snd (clearAllHooks True s) = writeSettingsFile (fst (clearAllHooks_loop VALID_EVENTS config 0)) s1"
  using assms by (simp add: clearAllHooks_def split: prod.splits)


lemma clearAllHooks_keeps_unmanaged:
  "unmanaged (disk_hooks (snd (clearAllHooks confirm s)) ev) = unmanaged (disk_hooks s ev)"
proof (cases "confirm \<and> settings_file s \<noteq> Some Unparseable")
  case False
  then show ?thesis by (auto simp: clearAllHooks_def readSettingsFile_def)
next
  case True
  then obtain config s1 where r: "readSettingsFile s = (Return config, s1)"
    using readSettingsFile_parseable by blast
  from True have c: "confirm = True" by simp
  from clearAllHooks_unfold [OF r] show ?thesis
    unfolding c
  proof
    assume "snd (clearAllHooks True s) = s1"
    then show "unmanaged (disk_hooks (snd (clearAllHooks True s)) ev) = unmanaged (disk_hooks s ev)"
      by (simp add: disk_hooks_read [OF r] disk_hooks_read_before [OF r])
  next
    assume "snd (clearAllHooks True s) =
              writeSettingsFile (fst (clearAllHooks_loop VALID_EVENTS config 0)) s1"
    then show "unmanaged (disk_hooks (snd (clearAllHooks True s)) ev) = unmanaged (disk_hooks s ev)"
      by (simp add: disk_hooks_writeSettingsFile disk_hooks_read_before [OF r]
          clearAllHooks_loop_hooks unmanaged_idem)
  qed
qed

section \<open>The command pattern and the lookup\<close>

lemma backtrack_first:
  "rest (drop n s) = Some caps \<Longrightarrow> backtrack rest s lo n = Some (take n s # caps)"
  by (subst backtrack.simps) simp

lemma match_plus:
  assumes "takeWhile P s = a" and "a \<noteq> []"
    and "match_pieces ps (drop (length a) s) = Some caps"
  shows "match_pieces ((P, Plus) # ps) s = Some (take (length a) s # caps)"
proof -
  have "\<not> length a < 1" using assms(2) by (cases a) simp_all
  then show ?thesis
    using assms(1,3) by (simp add: Let_def backtrack_first)
qed

lemma match_opt:
  assumes "P c" and "match_pieces ps r = Some caps"
  shows "match_pieces ((P, Opt) # ps) (c # r) = Some ([c] # caps)"
proof -
  have "min 1 (length (takeWhile P (c # r))) = 1"
    using assms(1) by simp
  then show ?thesis
    using assms(2) by (simp add: Let_def backtrack_first del: takeWhile.simps)
qed

lemma takeWhile_stop:
  "\<forall>c\<in>set a. P c \<Longrightarrow> \<not> P x \<Longrightarrow> takeWhile P (a @ x # r) = a"
  by (induction a) simp_all


lemma match_written:
  assumes "player \<noteq> []" and "\<forall>c\<in>set player. \<not> is_space c"
    and "p \<noteq> []" and "dq \<notin> set p"
  shows "match_pieces command_pattern (player @ '' '' @ [dq] @ p @ [dq])
           = Some [player, '' '', [dq], p, [dq]]"
proof -
  have nsd: "\<not> is_space dq" by (simp add: is_space_def dq_def)
  have sp: "is_space CHR '' ''" by (simp add: is_space_def)
  have t4: "takeWhile (\<lambda>c. c \<noteq> dq) (p @ [dq]) = p"
    using assms(4) by (intro takeWhile_stop) auto
  have m6: "match_pieces [] [] = Some []"
    by simp
  have m5: "match_pieces [(\<lambda>c. c = dq, Opt)] [dq] = Some [[dq]]"
    by (rule match_opt) (simp_all only: m6)
  have "match_pieces [(\<lambda>c. c \<noteq> dq, Plus), (\<lambda>c. c = dq, Opt)] (p @ [dq])
          = Some (take (length p) (p @ [dq]) # [[dq]])"
    by (rule match_plus [OF t4 assms(3)]) (simp only: drop_append drop_all m5 diff_self_eq_0 drop_0 append_Nil order_refl)
  then have m4: "match_pieces [(\<lambda>c. c \<noteq> dq, Plus), (\<lambda>c. c = dq, Opt)] (p @ [dq])
          = Some [p, [dq]]"
    by (simp only: take_append take_all order_refl diff_self_eq_0 take_0 append_Nil2)
  have m3: "match_pieces [(\<lambda>c. c = dq, Opt), (\<lambda>c. c \<noteq> dq, Plus), (\<lambda>c. c = dq, Opt)]
              (dq # p @ [dq]) = Some [[dq], p, [dq]]"
    by (rule match_opt) (simp_all only: m4)
  have t2: "takeWhile is_space (CHR '' '' # dq # p @ [dq]) = '' ''"
    using nsd sp by simp
  have "match_pieces [(is_space, Plus), (\<lambda>c. c = dq, Opt), (\<lambda>c. c \<noteq> dq, Plus),
                          (\<lambda>c. c = dq, Opt)]
              (CHR '' '' # dq # p @ [dq]) = Some (take (length '' '') (CHR '' '' # dq # p @ [dq]) # [[dq], p, [dq]])"
    by (rule match_plus [OF t2]) (simp_all add: m3 del: match_pieces.simps)
  then have m2: "match_pieces [(is_space, Plus), (\<lambda>c. c = dq, Opt), (\<lambda>c. c \<noteq> dq, Plus),
                          (\<lambda>c. c = dq, Opt)]
              (CHR '' '' # dq # p @ [dq]) = Some ['' '', [dq], p, [dq]]"
    by (simp del: match_pieces.simps)
  have t1: "takeWhile (\<lambda>c. \<not> is_space c) (player @ CHR '' '' # dq # p @ [dq]) = player"
    using assms(2) sp by (intro takeWhile_stop) auto
  have "match_pieces command_pattern (player @ CHR '' '' # dq # p @ [dq])
          = Some (take (length player) (player @ CHR '' '' # dq # p @ [dq]) # ['' '', [dq], p, [dq]])"
    unfolding command_pattern_def
    by (rule match_plus [OF t1 assms(1)]) (simp add: m2 del: match_pieces.simps)
  then show ?thesis
    by (simp del: match_pieces.simps)
qed

lemma commandParts_written:
  assumes "player \<noteq> []" and "\<forall>c\<in>set player. \<not> is_space c"
    and "p \<noteq> []" and "dq \<notin> set p"
  shows "commandParts (player @ '' '' @ [dq] @ p @ [dq]) = Some p"
  by (simp only: commandParts_def match_written [OF assms]) simp

lemma commandParts_empty: "commandParts [] = None"
  by (simp add: commandParts_def command_pattern_def)


lemma findExistingAudioHook_hooks_list_ex:
  "findExistingAudioHook_hooks e x hs =
     list_ex (\<lambda>h. hook_type h = ''command'' \<and>
                  (case commandParts (command h) of
                     None \<Rightarrow> False
                   | Some p \<Rightarrow> resolve e (replace_tilde (HOME e) p) = x)) hs"
proof (induction hs)
  case Nil
  then show ?case by simp
next
  case (Cons h hs)
  show ?case
  proof (cases "command h = []")
    case True
    then show ?thesis by (simp add: Cons.IH commandParts_empty)
  next
    case False
    then show ?thesis
      by (cases "commandParts (command h)") (simp_all add: Cons.IH)
  qed
qed

lemma findExistingAudioHook_groups_find:
  "findExistingAudioHook_groups e x gs =
     List.find (\<lambda>g. isccsoundManaged g \<and> findExistingAudioHook_hooks e x (hooks g)) gs"
  by (induction gs) simp_all

lemma findExistingAudioHook_groups_filter:
  "findExistingAudioHook_groups e x (filter isccsoundManaged gs) =
     findExistingAudioHook_groups e x gs"
  by (induction gs) simp_all

lemma findExistingAudioHook_groups_skip:
  "\<forall>g\<in>set us. \<not> isccsoundManaged g \<Longrightarrow>
     findExistingAudioHook_groups e x (us @ gs) = findExistingAudioHook_groups e x gs"
  by (induction us) simp_all

lemma replace_tilde_no_tilde:
  "take 1 p \<noteq> ''~'' \<Longrightarrow> replace_tilde home p = p"
  by (cases p) (simp_all add: replace_tilde_def)

lemma getAudioPlayer_word:
  "pf \<noteq> ''win32'' \<Longrightarrow> getAudioPlayer pf \<noteq> [] \<and> (\<forall>c\<in>set (getAudioPlayer pf). \<not> is_space c)"
  by (simp add: getAudioPlayer_def is_space_def)

lemma findExistingAudioHook_created:
  assumes "platform e \<noteq> ''win32''"
    and "replace_tilde (HOME e) audioFile \<noteq> []"
    and "dq \<notin> set (replace_tilde (HOME e) audioFile)"
    and "take 1 (replace_tilde (HOME e) audioFile) \<noteq> ''~''"
    and "resolve e (replace_tilde (HOME e) audioFile2) = resolve e (replace_tilde (HOME e) audioFile)"
    and "HOME e' = HOME e" and "resolve e' = resolve e"
  shows "findExistingAudioHook e' (unmanaged gs @ [createAudioHook e event audioFile options]) audioFile2
           = Some (createAudioHook e event audioFile options)"
proof -
  let ?X = "replace_tilde (HOME e) audioFile"
  let ?new = "createAudioHook e event audioFile options"
  have hk: "hooks ?new =
              [\<lparr>hook_type = ''command'',
                command = getAudioPlayer (platform e) @ '' '' @ [dq] @ ?X @ [dq],
                ccsound = Some (createWatermark e)\<rparr>]"
    by (simp add: createAudioHook_def Let_def split: option.splits)
  have cp: "commandParts (getAudioPlayer (platform e) @ '' '' @ [dq] @ ?X @ [dq]) = Some ?X"
    using getAudioPlayer_word [OF assms(1)] assms(2,3) by (intro commandParts_written) simp_all
  have "findExistingAudioHook_hooks e' (resolve e ?X) (hooks ?new)"
    unfolding hk findExistingAudioHook_hooks_list_ex
    by (simp only: list_ex_Cons_iff list_ex_Nil_iff Hook.simps cp option.case assms(6,7)
        replace_tilde_no_tilde [OF assms(4)]) simp
  then have "findExistingAudioHook_groups e' (resolve e ?X) [?new] = Some ?new"
    by (simp add: isccsoundManaged_createAudioHook)
  moreover have "\<forall>g\<in>set (unmanaged gs). \<not> isccsoundManaged g"
    by (simp add: unmanaged_def)
  ultimately show ?thesis
    by (simp only: findExistingAudioHook_def findExistingAudioHook_groups_skip assms(5,6,7))
qed


lemma findExistingAudioHook_same_file:
  assumes "resolve e (replace_tilde (HOME e) audioFile2) = resolve e (replace_tilde (HOME e) audioFile)"
    and "HOME e' = HOME e" and "resolve e' = resolve e"
  shows "findExistingAudioHook e' gs audioFile2 = findExistingAudioHook e gs audioFile"
proof -
  have "findExistingAudioHook_hooks e' x hs = findExistingAudioHook_hooks e x hs" for x hs
    by (induction hs) (simp_all add: assms(2,3) split: option.splits)
  then have "findExistingAudioHook_groups e' x gs = findExistingAudioHook_groups e x gs" for x
    by (simp add: findExistingAudioHook_groups_find)
  then show ?thesis
    by (simp add: findExistingAudioHook_def assms)
qed

lemma addSoundHook_already:
  assumes "event \<in> set VALID_EVENTS"
    and "exists (validateAudioFile e audioFile)"
    and "findExistingAudioHook e (disk_hooks s event) audioFile = Some g"
  shows "addSoundHook e event audioFile options s = (Return AlreadyExists, s)"
proof -
  have "disk_hooks s event \<noteq> []"
    using assms(3) by (auto simp: findExistingAudioHook_def)
  then obtain config where c: "settings_file s = Some (Parsed config)"
    by (auto simp: disk_hooks_def split: option.splits file_content.splits)
  then have r: "readSettingsFile s = (Return config, s)"
    by (simp add: readSettingsFile_def)
  have "findExistingAudioHook e (fst (getEventHooks config event)) audioFile = Some g"
    using assms(3) by (simp add: disk_hooks_read_before [OF r])
  then show ?thesis
    using assms(1,2) r by (cases "getEventHooks config event") (simp add: addSoundHook_def)
qed

text \<open>
  On \<open>win32\<close> the player is a template of several words with quotes of its own. The pattern
  never matches a command made from it, whatever the path.
\<close>

lemma commandParts_win32:
  "commandParts (getAudioPlayer ''win32'' @ '' '' @ [dq] @ p @ [dq]) = None"
  by (simp add: getAudioPlayer_def commandParts_def command_pattern_def Let_def
      backtrack.simps is_space_def dq_def)

lemma findExistingAudioHook_win32_unrecognized:
  assumes "platform e = ''win32''"
  shows "findExistingAudioHook e' (unmanaged gs @ [createAudioHook e event audioFile options])
           audioFile2 = None"
proof -
  let ?new = "createAudioHook e event audioFile options"
  have hk: "hooks ?new =
              [\<lparr>hook_type = ''command'',
                command = getAudioPlayer ''win32'' @ '' '' @ [dq]
                            @ replace_tilde (HOME e) audioFile @ [dq],
                ccsound = Some (createWatermark e)\<rparr>]"
    by (simp add: createAudioHook_def Let_def assms split: option.splits)
  have "\<not> findExistingAudioHook_hooks e' x (hooks ?new)" for x
    unfolding hk findExistingAudioHook_hooks_list_ex
    by (simp only: list_ex_Cons_iff list_ex_Nil_iff Hook.simps commandParts_win32 option.case)
       simp
  then have "findExistingAudioHook_groups e' x [?new] = None" for x
    by simp
  moreover have "\<forall>g\<in>set (unmanaged gs). \<not> isccsoundManaged g"
    by (simp add: unmanaged_def)
  ultimately show ?thesis
    by (simp only: findExistingAudioHook_def findExistingAudioHook_groups_skip)
qed

lemma addSoundHook_written_parseable:
  assumes "event \<in> set VALID_EVENTS"
    and "exists (validateAudioFile e audioFile)"
    and "settings_file s \<noteq> Some Unparseable"
    and "findExistingAudioHook e (disk_hooks s event) audioFile = None"
  shows "settings_file (snd (addSoundHook e event audioFile options s)) \<noteq> Some Unparseable"
proof -
  from assms(3) obtain config s1 where r: "readSettingsFile s = (Return config, s1)"
    using readSettingsFile_parseable by blast
  have f: "findExistingAudioHook e (fst (getEventHooks config event)) audioFile = None"
    using assms(4) by (simp add: disk_hooks_read_before [OF r])
  show ?thesis
    by (simp add: addSoundHook_success [OF assms(1,2) r f] settings_file_writeSettingsFile)
qed

lemma addSoundHook_win32_replaces_itself:
  assumes "platform e = ''win32''"
    and "event \<in> set VALID_EVENTS"
    and "exists (validateAudioFile e audioFile)"
    and "settings_file s \<noteq> Some Unparseable"
    and "findExistingAudioHook e (disk_hooks s event) audioFile = None"
    and "exists (validateAudioFile e' audioFile2)"
  shows "fst (addSoundHook e' event audioFile2 options2
                (snd (addSoundHook e event audioFile options s))) = Return Replaced"
proof -
  let ?s1 = "snd (addSoundHook e event audioFile options s)"
  have d: "disk_hooks ?s1 event =
             unmanaged (disk_hooks s event) @ [createAudioHook e event audioFile options]"
    using addSoundHook_written(2) [OF assms(2,3,4,5), where ev = event and options = options]
    by simp
  have p: "settings_file ?s1 \<noteq> Some Unparseable"
    using assms(2,3,4,5) by (rule addSoundHook_written_parseable)
  have n: "findExistingAudioHook e' (disk_hooks ?s1 event) audioFile2 = None"
    unfolding d using assms(1) by (rule findExistingAudioHook_win32_unrecognized)
  show ?thesis
    using addSoundHook_written(1) [OF assms(2,6) p n, of options2]
    by (simp add: d isccsoundManaged_createAudioHook)
qed

text \<open>Every outcome of \<open>add\<close>, in the order of its checks.\<close>

lemma addSoundHook_outcome:
  "fst (addSoundHook e event audioFile options s) =
     (if event \<notin> set VALID_EVENTS then Exit 1 (InvalidEvent event)
      else if \<not> exists (validateAudioFile e audioFile) then Exit 1 (AudioFileNotFound audioFile)
      else if settings_file s = Some Unparseable then Exit 1 SettingsParseError
      else if findExistingAudioHook e (disk_hooks s event) audioFile \<noteq> None
        then Return AlreadyExists
      else Return (if filter isccsoundManaged (disk_hooks s event) \<noteq> [] then Replaced else Added))"
proof (cases "event \<in> set VALID_EVENTS \<and> exists (validateAudioFile e audioFile)")
  case False
  then show ?thesis by (auto simp: addSoundHook_def)
next
  case valid: True
  show ?thesis
  proof (cases "settings_file s = Some Unparseable")
    case True
    with valid show ?thesis by (simp add: addSoundHook_def readSettingsFile_def)
  next
    case False
    show ?thesis
    proof (cases "findExistingAudioHook e (disk_hooks s event) audioFile")
      case None
      with valid False show ?thesis by (simp add: addSoundHook_written(1))
    next
      case (Some g)
      with valid False show ?thesis by (simp add: addSoundHook_already)
    qed
  qed
qed

text \<open>A path with a double quote is not read back either.\<close>

lemma addSoundHook_quoted_path_replaces_itself:
  "fst (addSoundHook linux_env ''Stop'' (''/tmp/a'' @ [dq] @ ''b.wav'') no_options empty_document)
     = Return Added
   \<and> fst (addSoundHook linux_env_later ''Stop'' (''/tmp/a'' @ [dq] @ ''b.wav'') no_options
             (snd (addSoundHook linux_env ''Stop'' (''/tmp/a'' @ [dq] @ ''b.wav'') no_options
                     empty_document)))
       = Return Replaced"
  by code_simp

section \<open>The claims\<close>

text \<open>
  C1. An \<open>add\<close> that gets past its checks (recognized event, existing audio file, parseable
  settings, no group already holding this file) leaves on disk exactly one managed group for
  the event, the newly built one, however many managed groups were there before, and reports
  \<open>Replaced\<close> when there was at least one and \<open>Added\<close> otherwise. By \<open>addSoundHook_outcome\<close>
  these are the runs that report \<open>Added\<close> or \<open>Replaced\<close>, and no other run does.
\<close>

theorem addSoundHook_exactly_one_managed:
  assumes "event \<in> set VALID_EVENTS"
    and "exists (validateAudioFile e audioFile)"
    and "settings_file s \<noteq> Some Unparseable"
    and "findExistingAudioHook e (disk_hooks s event) audioFile = None"
  shows "filter isccsoundManaged (disk_hooks (snd (addSoundHook e event audioFile options s)) event)
           = [createAudioHook e event audioFile options]
         \<and> fst (addSoundHook e event audioFile options s) =
             Return (if filter isccsoundManaged (disk_hooks s event) \<noteq> [] then Replaced else Added)"
  using addSoundHook_written [OF assms, of options]
  by (simp add: unmanaged_def isccsoundManaged_createAudioHook)

theorem addSoundHook_exactly_one_managed_witness:
  "length (filter isccsoundManaged (disk_hooks (stop_document two_managed_one_foreign) ''Stop'')) = 2
   \<and> filter isccsoundManaged
         (disk_hooks (snd (addSoundHook linux_env ''Stop'' ''/tmp/a.wav'' no_options
                             (stop_document two_managed_one_foreign))) ''Stop'')
       = [createAudioHook linux_env ''Stop'' ''/tmp/a.wav'' no_options]
   \<and> fst (addSoundHook linux_env ''Stop'' ''/tmp/a.wav'' no_options
             (stop_document two_managed_one_foreign)) = Return Replaced"
proof -
  have h1: "''Stop'' \<in> set VALID_EVENTS"
    by (simp add: VALID_EVENTS_def)
  have h2: "exists (validateAudioFile linux_env ''/tmp/a.wav'')"
    by code_simp
  have h3: "settings_file (stop_document two_managed_one_foreign) \<noteq> Some Unparseable"
    by (simp add: stop_document_def)
  have h4: "findExistingAudioHook linux_env
              (disk_hooks (stop_document two_managed_one_foreign) ''Stop'') ''/tmp/a.wav'' = None"
    by code_simp
  have n: "length (filter isccsoundManaged
                     (disk_hooks (stop_document two_managed_one_foreign) ''Stop'')) = 2"
    by code_simp
  then have "filter isccsoundManaged
               (disk_hooks (stop_document two_managed_one_foreign) ''Stop'') \<noteq> []"
    by auto
  then show ?thesis
    using addSoundHook_exactly_one_managed [OF h1 h2 h3 h4, of no_options] n by simp
qed

text \<open>
  C2, as amended. The second of two \<open>add\<close> calls for the same event and the same resolved
  file reports \<open>AlreadyExists\<close> and leaves the files as they are, and when the first call
  added or replaced, the event then has exactly one managed group. This is shown for a player
  command that is one word (every platform but \<open>win32\<close>) and a home-expanded path that is not
  empty, has no double quote and does not start with a tilde. The second call runs in the same
  environment at a later time.
\<close>

theorem addSoundHook_again_is_noop:
  assumes "platform e \<noteq> ''win32''"
    and "replace_tilde (HOME e) audioFile \<noteq> []"
    and "dq \<notin> set (replace_tilde (HOME e) audioFile)"
    and "take 1 (replace_tilde (HOME e) audioFile) \<noteq> ''~''"
    and "event \<in> set VALID_EVENTS"
    and "exists (validateAudioFile e audioFile)"
    and "settings_file s \<noteq> Some Unparseable"
    and "resolve e (replace_tilde (HOME e) audioFile2) = resolve e (replace_tilde (HOME e) audioFile)"
    and "s1 = snd (addSoundHook e event audioFile options s)"
    and "e' = e\<lparr>clock := t, uuid := u\<rparr>"
  shows "addSoundHook e' event audioFile2 options2 s1 = (Return AlreadyExists, s1)
         \<and> (fst (addSoundHook e event audioFile options s) \<noteq> Return AlreadyExists \<longrightarrow>
              filter isccsoundManaged (disk_hooks s1 event)
                = [createAudioHook e event audioFile options])"
proof -
  have h: "HOME e' = HOME e" and rs: "resolve e' = resolve e" and ac: "access_ok e' = access_ok e"
    using assms(10) by simp_all
  have v: "exists (validateAudioFile e' audioFile2)"
    using assms(6,8) by (simp add: validateAudioFile_def Let_def h rs ac split: if_splits)
  show ?thesis
  proof (cases "findExistingAudioHook e (disk_hooks s event) audioFile")
    case None
    note w = addSoundHook_written [OF assms(5,6,7) None, of options]
    have d: "disk_hooks s1 event =
               unmanaged (disk_hooks s event) @ [createAudioHook e event audioFile options]"
      using w(2) [of event] by (simp add: assms(9))
    have "findExistingAudioHook e' (disk_hooks s1 event) audioFile2
            = Some (createAudioHook e event audioFile options)"
      unfolding d using assms(1,2,3,4,8) h rs by (rule findExistingAudioHook_created)
    then have "addSoundHook e' event audioFile2 options2 s1 = (Return AlreadyExists, s1)"
      using assms(5) v by (intro addSoundHook_already)
    moreover have "filter isccsoundManaged (disk_hooks s1 event)
                     = [createAudioHook e event audioFile options]"
      by (simp add: d unmanaged_def isccsoundManaged_createAudioHook)
    ultimately show ?thesis by simp
  next
    case (Some g)
    then have a: "addSoundHook e event audioFile options s = (Return AlreadyExists, s)"
      using assms(5,6) by (intro addSoundHook_already)
    then have s1: "s1 = s" by (simp add: assms(9))
    have "findExistingAudioHook e' (disk_hooks s event) audioFile2 = Some g"
      using findExistingAudioHook_same_file [OF assms(8) h rs] Some by simp
    then have "addSoundHook e' event audioFile2 options2 s = (Return AlreadyExists, s)"
      using assms(5) v by (intro addSoundHook_already)
    then show ?thesis by (simp add: s1 a)
  qed
qed

theorem addSoundHook_again_is_noop_witness:
  "addSoundHook linux_env_later ''Stop'' ''/tmp/../tmp/a.wav'' no_options
     (snd (addSoundHook linux_env ''Stop'' ''/tmp/a.wav'' no_options
             (stop_document two_managed_one_foreign)))
     = (Return AlreadyExists,
        snd (addSoundHook linux_env ''Stop'' ''/tmp/a.wav'' no_options
               (stop_document two_managed_one_foreign)))
   \<and> filter isccsoundManaged
         (disk_hooks (snd (addSoundHook linux_env ''Stop'' ''/tmp/a.wav'' no_options
                             (stop_document two_managed_one_foreign))) ''Stop'')
       = [createAudioHook linux_env ''Stop'' ''/tmp/a.wav'' no_options]"
proof -
  have h1: "platform linux_env \<noteq> ''win32''"
    by (simp add: linux_env_def)
  have h2: "replace_tilde (HOME linux_env) ''/tmp/a.wav'' \<noteq> []"
    by code_simp
  have h3: "dq \<notin> set (replace_tilde (HOME linux_env) ''/tmp/a.wav'')"
    by code_simp
  have h4: "take 1 (replace_tilde (HOME linux_env) ''/tmp/a.wav'') \<noteq> ''~''"
    by code_simp
  have h5: "''Stop'' \<in> set VALID_EVENTS"
    by (simp add: VALID_EVENTS_def)
  have h6: "exists (validateAudioFile linux_env ''/tmp/a.wav'')"
    by code_simp
  have h7: "settings_file (stop_document two_managed_one_foreign) \<noteq> Some Unparseable"
    by (simp add: stop_document_def)
  have h8: "resolve linux_env (replace_tilde (HOME linux_env) ''/tmp/../tmp/a.wav'')
              = resolve linux_env (replace_tilde (HOME linux_env) ''/tmp/a.wav'')"
    by code_simp
  have h10: "linux_env_later = linux_env\<lparr>clock := ''2025-01-02T08:30:00.000Z'',
                                          uuid := ''9f8e7d6c-5b4a-4392-8170-0123456789ab''\<rparr>"
    by (simp add: linux_env_later_def)
  have f: "fst (addSoundHook linux_env ''Stop'' ''/tmp/a.wav'' no_options
                  (stop_document two_managed_one_foreign)) \<noteq> Return AlreadyExists"
    by code_simp
  show ?thesis
    using addSoundHook_again_is_noop [OF h1 h2 h3 h4 h5 h6 h7 h8 refl h10,
        of no_options no_options] f
    by simp
qed

text \<open>
  C2 as stated fails where the file is already held by one of several managed groups: both
  calls are the no-op, and the event keeps its two managed groups.
\<close>

theorem addSoundHook_twice_keeps_two_managed:
  "addSoundHook linux_env ''Stop'' ''/tmp/a.wav'' no_options (stop_document two_sounds)
     = (Return AlreadyExists, stop_document two_sounds)
   \<and> addSoundHook linux_env_later ''Stop'' ''/tmp/a.wav'' no_options (stop_document two_sounds)
       = (Return AlreadyExists, stop_document two_sounds)
   \<and> length (filter isccsoundManaged (disk_hooks (stop_document two_sounds) ''Stop'')) = 2"
  by code_simp

text \<open>
  C3. \<open>add\<close>, \<open>remove\<close> and \<open>clearAll\<close> leave the unmanaged groups of every event on disk as
  they were, the same groups in the same order, whatever the outcome of the operation.
\<close>

theorem unmanaged_groups_preserved:
  "unmanaged (disk_hooks (snd (addSoundHook e event audioFile options s)) ev) = unmanaged (disk_hooks s ev)
   \<and> unmanaged (disk_hooks (snd (removeHooks event s)) ev) = unmanaged (disk_hooks s ev)
   \<and> unmanaged (disk_hooks (snd (clearAllHooks confirm s)) ev) = unmanaged (disk_hooks s ev)"
  by (simp add: addSoundHook_keeps_unmanaged removeHooks_keeps_unmanaged
      clearAllHooks_keeps_unmanaged)

theorem unmanaged_groups_preserved_witness:
  "unmanaged (disk_hooks (snd (addSoundHook linux_env ''Stop'' ''/tmp/a.wav'' no_options
                                 (stop_document two_managed_one_foreign))) ''Stop'')
     = [foreign_group]
   \<and> unmanaged (disk_hooks (snd (removeHooks ''Stop'' (stop_document two_managed_one_foreign)))
                  ''Stop'')
       = [foreign_group]
   \<and> unmanaged (disk_hooks (snd (clearAllHooks True (stop_document two_managed_one_foreign)))
                  ''Stop'')
       = [foreign_group]"
proof -
  have u: "unmanaged (disk_hooks (stop_document two_managed_one_foreign) ''Stop'') = [foreign_group]"
    by code_simp
  show ?thesis
    using unmanaged_groups_preserved [of linux_env "''Stop''" "''/tmp/a.wav''" no_options
        "stop_document two_managed_one_foreign" "''Stop''" True] u
    by simp
qed

text \<open>
  C4, as amended. \<open>findExistingAudioHook\<close> is the specification's lookup with the extraction
  rule replaced by the second group of the anchored pattern \<open>^(\S+)\s+"?([^"]+)"?$\<close>, a command
  that does not match the pattern being skipped; and its result does not depend on the
  unmanaged groups.
\<close>

theorem findExistingAudioHook_anchored_pattern:
  "findExistingAudioHook e eventHooks audioFile = findByPath_spec commandParts e eventHooks audioFile
   \<and> findExistingAudioHook e (filter isccsoundManaged eventHooks) audioFile
       = findExistingAudioHook e eventHooks audioFile"
proof
  show "findExistingAudioHook e eventHooks audioFile
          = findByPath_spec commandParts e eventHooks audioFile"
    by (simp add: findExistingAudioHook_def findByPath_spec_def findExistingAudioHook_groups_find
        findExistingAudioHook_hooks_list_ex)
  show "findExistingAudioHook e (filter isccsoundManaged eventHooks) audioFile
          = findExistingAudioHook e eventHooks audioFile"
    by (simp add: findExistingAudioHook_def findExistingAudioHook_groups_filter)
qed

theorem findExistingAudioHook_anchored_pattern_witness:
  "findExistingAudioHook linux_env (foreign_group # two_sounds) ''/home/./u/a.wav''
     = Some (managed_group (''aplay '' @ quoted ''/home/u/a.wav''))
   \<and> findExistingAudioHook linux_env (filter isccsoundManaged (foreign_group # two_sounds))
         ''/home/./u/a.wav''
       = Some (managed_group (''aplay '' @ quoted ''/home/u/a.wav''))"
proof -
  have "findByPath_spec commandParts linux_env (foreign_group # two_sounds) ''/home/./u/a.wav''
          = Some (managed_group (''aplay '' @ quoted ''/home/u/a.wav''))"
    by code_simp
  then show ?thesis
    using findExistingAudioHook_anchored_pattern
      [of linux_env "foreign_group # two_sounds" "''/home/./u/a.wav''"]
    by simp
qed

text \<open>
  C4 as stated fails on a managed command with an option after the quoted path: the first
  quoted substring is the path that is asked for, so the lookup of the claim returns the
  group, and the lookup of the code returns nothing.
\<close>

theorem findExistingAudioHook_not_first_quoted:
  "extractAudioFile (''aplay '' @ quoted ''/tmp/a.wav'' @ '' -q'') = Some ''/tmp/a.wav''
   \<and> commandParts (''aplay '' @ quoted ''/tmp/a.wav'' @ '' -q'') = None
   \<and> findByPath_spec extractAudioFile linux_env [edited_group] ''/tmp/a.wav'' = Some edited_group
   \<and> findExistingAudioHook linux_env [edited_group] ''/tmp/a.wav'' = None"
  by code_simp

text \<open>
  C5. \<open>load\<close> on an absent settings file returns the empty document and the file then holds
  it; on a file that does not parse it exits with code 1 on a parse error and leaves every
  file as it was.
\<close>

theorem readSettingsFile_absent_or_malformed:
  "(settings_file s = None \<longrightarrow>
      fst (readSettingsFile s) = Return \<lparr>settings_hooks = Some []\<rparr> \<and>
      settings_file (snd (readSettingsFile s)) = Some (Parsed \<lparr>settings_hooks = Some []\<rparr>))
   \<and> (settings_file s = Some Unparseable \<longrightarrow>
        readSettingsFile s = (Exit 1 SettingsParseError, s))"
  by (simp add: readSettingsFile_def Let_def settings_file_writeSettingsFile)

theorem readSettingsFile_absent_or_malformed_witness:
  "fst (readSettingsFile absent_settings) = Return \<lparr>settings_hooks = Some []\<rparr>
   \<and> settings_file (snd (readSettingsFile absent_settings))
       = Some (Parsed \<lparr>settings_hooks = Some []\<rparr>)
   \<and> readSettingsFile malformed_settings = (Exit 1 SettingsParseError, malformed_settings)"
  using readSettingsFile_absent_or_malformed [of absent_settings]
    readSettingsFile_absent_or_malformed [of malformed_settings]
  by (simp add: absent_settings_def malformed_settings_def)

text \<open>
  C6. \<open>remove\<close> of a recognized event, on settings that parse, leaves on disk the unmanaged
  groups of the event and no managed one, leaves the other events as they were, and reports the
  number of managed groups there were, 0 when there was none. The witness is the document with
  two managed groups and one unmanaged group under \<open>Stop\<close>.
\<close>

theorem removeHooks_removes_managed:
  assumes "event \<in> set VALID_EVENTS" and "settings_file s \<noteq> Some Unparseable"
  shows "disk_hooks (snd (removeHooks event s)) event
           = filter (\<lambda>g. \<not> isccsoundManaged g) (disk_hooks s event)
         \<and> filter isccsoundManaged (disk_hooks (snd (removeHooks event s)) event) = []
         \<and> (\<forall>ev. ev \<noteq> event \<longrightarrow> disk_hooks (snd (removeHooks event s)) ev = disk_hooks s ev)
         \<and> (\<exists>r. fst (removeHooks event s) = Return r \<and>
                reported_count r = length (filter isccsoundManaged (disk_hooks s event)))"
  using removeHooks_result(1) [OF assms] removeHooks_result(2) [OF assms]
  by (simp add: unmanaged_def)

theorem removeHooks_removes_managed_witness:
  "length (filter isccsoundManaged (disk_hooks (stop_document two_managed_one_foreign) ''Stop'')) = 2
   \<and> length (filter (\<lambda>g. \<not> isccsoundManaged g)
                (disk_hooks (stop_document two_managed_one_foreign) ''Stop'')) = 1
   \<and> disk_hooks (snd (removeHooks ''Stop'' (stop_document two_managed_one_foreign))) ''Stop''
       = [foreign_group]
   \<and> filter isccsoundManaged
         (disk_hooks (snd (removeHooks ''Stop'' (stop_document two_managed_one_foreign))) ''Stop'')
       = []
   \<and> (\<exists>r. fst (removeHooks ''Stop'' (stop_document two_managed_one_foreign)) = Return r
            \<and> reported_count r = 2)"
proof -
  have h1: "''Stop'' \<in> set VALID_EVENTS"
    by (simp add: VALID_EVENTS_def)
  have h2: "settings_file (stop_document two_managed_one_foreign) \<noteq> Some Unparseable"
    by (simp add: stop_document_def)
  have u: "filter (\<lambda>g. \<not> isccsoundManaged g)
             (disk_hooks (stop_document two_managed_one_foreign) ''Stop'') = [foreign_group]"
    by code_simp
  have n: "length (filter isccsoundManaged
                     (disk_hooks (stop_document two_managed_one_foreign) ''Stop'')) = 2"
    by code_simp
  have m: "length (filter (\<lambda>g. \<not> isccsoundManaged g)
                     (disk_hooks (stop_document two_managed_one_foreign) ''Stop'')) = 1"
    by code_simp
  show ?thesis
    using removeHooks_removes_managed [OF h1 h2, unfolded u n] n m by blast
qed

text \<open>
  C7. \<open>add\<close> of a recognized event with an audio path whose resolved file does not exist exits
  with code 1 on a file-not-found error and leaves every file as it was.
\<close>

theorem addSoundHook_missing_file:
  assumes "event \<in> set VALID_EVENTS"
    and "\<not> access_ok e (resolve e (replace_tilde (HOME e) audioFile))"
  shows "addSoundHook e event audioFile options s = (Exit 1 (AudioFileNotFound audioFile), s)"
  using assms by (simp add: addSoundHook_def validateAudioFile_def Let_def)

theorem addSoundHook_missing_file_witness:
  "addSoundHook linux_env ''Notification'' ''~/missing.wav'' no_options
     (stop_document two_managed_one_foreign)
     = (Exit 1 (AudioFileNotFound ''~/missing.wav''), stop_document two_managed_one_foreign)"
proof -
  have h1: "''Notification'' \<in> set VALID_EVENTS"
    by (simp add: VALID_EVENTS_def)
  have h2: "\<not> access_ok linux_env
                (resolve linux_env (replace_tilde (HOME linux_env) ''~/missing.wav''))"
    by code_simp
  show ?thesis
    using addSoundHook_missing_file [OF h1 h2] by simp
qed

text \<open>
  C8, on Windows. The first \<open>add\<close> of \<open>~/a.wav\<close> adds a group; the second, with the absolute
  expansion of the path, replaces it and writes the settings again, where the claim has a no-op.
\<close>

theorem addSoundHook_tilde_then_absolute_win32:
  "fst (addSoundHook win32_env ''Stop'' ''~/a.wav'' no_options empty_document) = Return Added
   \<and> resolve win32_env (replace_tilde (HOME win32_env) ''~/a.wav'')
       = ''C:'' @ [CHR 0x5C] @ ''Users'' @ [CHR 0x5C] @ ''u'' @ [CHR 0x5C] @ ''a.wav''
   \<and> fst (addSoundHook win32_env_later ''Stop''
             (''C:'' @ [CHR 0x5C] @ ''Users'' @ [CHR 0x5C] @ ''u'' @ [CHR 0x5C] @ ''a.wav'') no_options
             (snd (addSoundHook win32_env ''Stop'' ''~/a.wav'' no_options empty_document)))
       = Return Replaced
   \<and> snd (addSoundHook win32_env_later ''Stop''
             (''C:'' @ [CHR 0x5C] @ ''Users'' @ [CHR 0x5C] @ ''u'' @ [CHR 0x5C] @ ''a.wav'') no_options
             (snd (addSoundHook win32_env ''Stop'' ''~/a.wav'' no_options empty_document)))
       \<noteq> snd (addSoundHook win32_env ''Stop'' ''~/a.wav'' no_options empty_document)"
  by code_simp

text \<open>
  C9, as amended. \<open>add\<close>, \<open>remove\<close> and the test of one event answer an event name outside the
  five recognized kinds with an invalid-event error and exit code 1, and leave every file as it
  was. The test of all events never reports an invalid event.
\<close>

theorem invalid_event_rejected:
  assumes "event \<notin> set VALID_EVENTS"
  shows "addSoundHook e event audioFile options s = (Exit 1 (InvalidEvent event), s)
         \<and> removeHooks event s = (Exit 1 (InvalidEvent event), s)
         \<and> testSpecificEvent e event topts s = (Exit 1 (InvalidEvent event), s)
         \<and> fst (testAllEvents e topts s) \<noteq> Exit 1 (InvalidEvent event)"
  using assms
  by (simp add: addSoundHook_def removeHooks_def testSpecificEvent_def testAllEvents_def
      readSettingsFile_def Let_def split: option.splits file_content.splits)

theorem invalid_event_rejected_witness:
  "addSoundHook linux_env ''Bogus'' ''/tmp/a.wav'' no_options empty_document
     = (Exit 1 (InvalidEvent ''Bogus''), empty_document)
   \<and> removeHooks ''Bogus'' empty_document = (Exit 1 (InvalidEvent ''Bogus''), empty_document)
   \<and> testSpecificEvent linux_env ''Bogus'' \<lparr>dryRun = True, events = None\<rparr> empty_document
       = (Exit 1 (InvalidEvent ''Bogus''), empty_document)"
proof -
  have h: "''Bogus'' \<notin> set VALID_EVENTS"
    by (simp add: VALID_EVENTS_def)
  show ?thesis
    using invalid_event_rejected [OF h] by simp
qed

text \<open>
  C9 as stated fails on the test of all events: an unrecognized name in its event list is not
  rejected, the run returns normally with nothing tested; and the command \<open>test\<close> with an
  unrecognized event and \<open>--all\<close> tests all events and returns normally.
\<close>

theorem testAllEvents_accepts_unknown_event:
  "''Bogus'' \<notin> set VALID_EVENTS
   \<and> testAllEvents linux_env \<lparr>dryRun = True, events = Some [''Bogus'']\<rparr> empty_document
       = (Return \<lparr>successes = 0, failures = 0, tested_events = 0\<rparr>, empty_document)
   \<and> test_command linux_env (Some ''Bogus'') True True (stop_document two_sounds)
       = (Return (AllEvents \<lparr>successes = 2, failures = 0, tested_events = 1\<rparr>),
          stop_document two_sounds)"
  by code_simp

text \<open>
  C10. After an \<open>add\<close> that gets past its checks, the groups of the event on disk are the
  unmanaged groups that were there, in their order, followed by the new managed group.
\<close>

theorem addSoundHook_appends_last:
  assumes "event \<in> set VALID_EVENTS"
    and "exists (validateAudioFile e audioFile)"
    and "settings_file s \<noteq> Some Unparseable"
    and "findExistingAudioHook e (disk_hooks s event) audioFile = None"
  shows "disk_hooks (snd (addSoundHook e event audioFile options s)) event =
           filter (\<lambda>g. \<not> isccsoundManaged g) (disk_hooks s event)
             @ [createAudioHook e event audioFile options]"
  using addSoundHook_written(2) [OF assms, where ev = event and options = options]
  by (simp add: unmanaged_def)

theorem addSoundHook_appends_last_witness:
  "disk_hooks (snd (addSoundHook linux_env ''Stop'' ''/tmp/a.wav'' no_options
                      (stop_document two_managed_one_foreign))) ''Stop''
     = [foreign_group, createAudioHook linux_env ''Stop'' ''/tmp/a.wav'' no_options]"
proof -
  have h1: "''Stop'' \<in> set VALID_EVENTS"
    by (simp add: VALID_EVENTS_def)
  have h2: "exists (validateAudioFile linux_env ''/tmp/a.wav'')"
    by code_simp
  have h3: "settings_file (stop_document two_managed_one_foreign) \<noteq> Some Unparseable"
    by (simp add: stop_document_def)
  have h4: "findExistingAudioHook linux_env
              (disk_hooks (stop_document two_managed_one_foreign) ''Stop'') ''/tmp/a.wav'' = None"
    by code_simp
  have u: "filter (\<lambda>g. \<not> isccsoundManaged g)
             (disk_hooks (stop_document two_managed_one_foreign) ''Stop'') = [foreign_group]"
    by code_simp
  show ?thesis
    using addSoundHook_appends_last [OF h1 h2 h3 h4, of no_options] u by simp
qed

end
